theory Spec2Isabelle
  imports Complex_Main
begin

section \<open>Auction clients of pymaker: \<open>Flipper\<close>, \<open>Flapper\<close>, \<open>Flopper\<close>\<close>

text \<open>
  The development embeds \<^verbatim>\<open>src/pymaker/auctions.py\<close>. The file declares three client
  classes over a remote contract. Every method is either a read (one contract call, then a
  conversion of the returned raw value) or a request builder (a \<^verbatim>\<open>Transact\<close> object is
  constructed from the fields of \<^verbatim>\<open>self\<close> and the arguments, and returned).

  A method is modelled as a function from the world before the call to a result and the
  world after it. The world holds the client object, the answers of the remote contract and
  the log of the contract calls issued so far, so that "reads the ledger" and "leaves the
  object unchanged" are statements about the returned world.
\<close>

subsection \<open>Values of the collaborating classes\<close>

text \<open>
  \<^verbatim>\<open>Address\<close> and \<^verbatim>\<open>Wad\<close> are imported from the package root and are not part of the
  embedded file. The clients read one attribute of each: \<^verbatim>\<open>.address\<close> (a string) and
  \<^verbatim>\<open>.value\<close> (an integer).
\<close>

datatype Address = Address (addr_address: string)

datatype Wad = Wad (wad_value: int)

text \<open>
  The exceptions. \<open>IndexError\<close> is raised by \<^verbatim>\<open>array[i]\<close> beyond the end of the array,
  \<open>AttributeError\<close> by the lookup of a method that a class does not define, and
  \<open>ExternalError\<close> stands for whatever a collaborator raises (the contract call, or one of
  the constructors \<^verbatim>\<open>Wad(...)\<close>, \<^verbatim>\<open>Address(...)\<close>, \<^verbatim>\<open>int(...)\<close> on a raw value).
  The remaining constructors are the error names of the specification; no definition
  translated from the source produces them.
  The \<^verbatim>\<open>assert(isinstance(...))\<close> lines of the source hold by typing in this model.
\<close>

datatype error =
    IndexError
  | AttributeError
  | ExternalError
  | AuctionNotActive
  | AuctionStillActive
  | BidTooLow
  | LotNotLower
  | LotMismatch
  | BidMismatch
  | InvalidParameters
  | NotFoundError
  | UnavailableError
  | DecodeError

definition bind_err :: "error + 'a \<Rightarrow> ('a \<Rightarrow> error + 'b) \<Rightarrow> error + 'b" where
  "bind_err r f = (case r of Inl e \<Rightarrow> Inl e | Inr v \<Rightarrow> f v)"

definition ext :: "'a option \<Rightarrow> error + 'a" where
  "ext r = (case r of None \<Rightarrow> Inl ExternalError | Some v \<Rightarrow> Inr v)"

definition py_index :: "'a list \<Rightarrow> nat \<Rightarrow> error + 'a" where
  "py_index array i = (if i < length array then Inr (array ! i) else Inl IndexError)"

text \<open>
  The constructors applied to raw contract answers are parameters of the model: \<open>'r\<close> is
  the type of a raw value as the contract binding returns it, and a conversion yields
  \<open>None\<close> where the constructor raises.
\<close>

record 'r codec =
  mk_Wad :: "'r \<Rightarrow> Wad option"
  mk_Address :: "'r \<Rightarrow> Address option"
  mk_int :: "'r \<Rightarrow> int option"

subsection \<open>The client object, the contract and the world\<close>

text \<open>
  \<^verbatim>\<open>__init__\<close> stores three fields: \<^verbatim>\<open>web3\<close>, \<^verbatim>\<open>address\<close> and \<^verbatim>\<open>_contract\<close>. The
  handle and the binding are opaque, hence type parameters.
\<close>

record ('w, 'c) client =
  web3 :: 'w
  address :: Address
  contract :: 'c

text \<open>
  The answers of the remote contract to the calls the clients make; \<open>None\<close> is a call
  that raises. \<^verbatim>\<open>bids(id)\<close> answers with an array of raw values.
\<close>

record 'r ledger =
  era_ret :: "'r option"
  pie_ret :: "'r option"
  gem_ret :: "'r option"
  beg_ret :: "'r option"
  ttl_ret :: "'r option"
  tau_ret :: "'r option"
  kicks_ret :: "'r option"
  bids_ret :: "int \<Rightarrow> 'r list option"

datatype call = Call string "int list"

record ('w, 'c, 'r) world =
  self :: "('w, 'c) client"
  node :: "'r ledger"
  calls :: "call list"

text \<open>
  \<^verbatim>\<open>self._contract.call().f(args)\<close>: the call is recorded in the log and its answer
  returned.
\<close>

definition contract_call ::
  "string \<Rightarrow> int list \<Rightarrow> 'a option \<Rightarrow> ('w, 'c, 'r) world \<Rightarrow> (error + 'a) \<times> ('w, 'c, 'r) world" where
  "contract_call name args ret w = (ext ret, w\<lparr>calls := calls w @ [Call name args]\<rparr>)"

subsection \<open>The request object\<close>

text \<open>
  \<^verbatim>\<open>Transact(origin, web3, abi, address, contract, function_name, parameters)\<close>.
  A parameter is a string (an address) or an integer. The class attribute \<^verbatim>\<open>abi\<close> is
  loaded from a resource file and is represented by the name of that resource.
\<close>

datatype arg = AStr string | AInt int

datatype ('w, 'c) Transact =
  Transact (origin: "('w, 'c) client") (tx_web3: 'w) (tx_abi: string) (tx_address: Address)
    (tx_contract: 'c) (function_name: string) (parameters: "arg list")

definition Flipper_abi :: string where
  "Flipper_abi = ''abi/Flipper.abi''"

definition Flapper_abi :: string where
  "Flapper_abi = ''abi/Flapper.abi''"

definition Flopper_abi :: string where
  "Flopper_abi = ''abi/Flopper.abi''"

subsection \<open>The decoded record: \<^verbatim>\<open>Flapper.Bid\<close> and \<^verbatim>\<open>Flopper.Bid\<close>\<close>

record Flapper_Bid =
  flap_bid :: Wad
  flap_lot :: Wad
  flap_guy :: Address
  flap_tic :: int
  flap_end :: int

record Flopper_Bid =
  flop_bid :: Wad
  flop_lot :: Wad
  flop_guy :: Address
  flop_tic :: int
  flop_end :: int

subsection \<open>\<^verbatim>\<open>class Flipper\<close>\<close>

definition Flipper_era :: "('w, 'c, 'r) world \<Rightarrow> (error + 'r) \<times> ('w, 'c, 'r) world" where
  "Flipper_era w = contract_call ''era'' [] (era_ret (node w)) w"

definition Flipper_pie ::
  "'r codec \<Rightarrow> ('w, 'c, 'r) world \<Rightarrow> (error + Address) \<times> ('w, 'c, 'r) world" where
  "Flipper_pie cd w =
     (case contract_call ''pie'' [] (pie_ret (node w)) w of
        (r, w') \<Rightarrow> (bind_err r (\<lambda>v. ext (mk_Address cd v)), w'))"

definition Flipper_gem ::
  "'r codec \<Rightarrow> ('w, 'c, 'r) world \<Rightarrow> (error + Address) \<times> ('w, 'c, 'r) world" where
  "Flipper_gem cd w =
     (case contract_call ''gem'' [] (gem_ret (node w)) w of
        (r, w') \<Rightarrow> (bind_err r (\<lambda>v. ext (mk_Address cd v)), w'))"

definition Flipper_beg ::
  "'r codec \<Rightarrow> ('w, 'c, 'r) world \<Rightarrow> (error + Wad) \<times> ('w, 'c, 'r) world" where
  "Flipper_beg cd w =
     (case contract_call ''beg'' [] (beg_ret (node w)) w of
        (r, w') \<Rightarrow> (bind_err r (\<lambda>v. ext (mk_Wad cd v)), w'))"

definition Flipper_ttl ::
  "'r codec \<Rightarrow> ('w, 'c, 'r) world \<Rightarrow> (error + int) \<times> ('w, 'c, 'r) world" where
  "Flipper_ttl cd w =
     (case contract_call ''ttl'' [] (ttl_ret (node w)) w of
        (r, w') \<Rightarrow> (bind_err r (\<lambda>v. ext (mk_int cd v)), w'))"

definition Flipper_tau ::
  "'r codec \<Rightarrow> ('w, 'c, 'r) world \<Rightarrow> (error + int) \<times> ('w, 'c, 'r) world" where
  "Flipper_tau cd w =
     (case contract_call ''tau'' [] (tau_ret (node w)) w of
        (r, w') \<Rightarrow> (bind_err r (\<lambda>v. ext (mk_int cd v)), w'))"

definition Flipper_kick ::
  "('w, 'c, 'r) world \<Rightarrow> Address \<Rightarrow> Address \<Rightarrow> int \<Rightarrow> Wad \<Rightarrow> Wad
     \<Rightarrow> (error + ('w, 'c) Transact) \<times> ('w, 'c, 'r) world" where
  "Flipper_kick w lad gal tab lot bid =
     (Inr (Transact (self w) (web3 (self w)) Flipper_abi (address (self w)) (contract (self w))
             ''kick'' [AStr (addr_address lad),
                       AStr (addr_address gal),
                       AInt tab,
                       AInt (wad_value lot),
                       AInt (wad_value bid)]), w)"

definition Flipper_tend ::
  "('w, 'c, 'r) world \<Rightarrow> int \<Rightarrow> Wad \<Rightarrow> Wad
     \<Rightarrow> (error + ('w, 'c) Transact) \<times> ('w, 'c, 'r) world" where
  "Flipper_tend w i lot bid =
     (Inr (Transact (self w) (web3 (self w)) Flipper_abi (address (self w)) (contract (self w))
             ''tend'' [AInt i, AInt (wad_value lot), AInt (wad_value bid)]), w)"

definition Flipper_dent ::
  "('w, 'c, 'r) world \<Rightarrow> int \<Rightarrow> Wad \<Rightarrow> Wad
     \<Rightarrow> (error + ('w, 'c) Transact) \<times> ('w, 'c, 'r) world" where
  "Flipper_dent w i lot bid =
     (Inr (Transact (self w) (web3 (self w)) Flipper_abi (address (self w)) (contract (self w))
             ''dent'' [AInt i, AInt (wad_value lot), AInt (wad_value bid)]), w)"

definition Flipper_deal ::
  "('w, 'c, 'r) world \<Rightarrow> int \<Rightarrow> (error + ('w, 'c) Transact) \<times> ('w, 'c, 'r) world" where
  "Flipper_deal w i =
     (Inr (Transact (self w) (web3 (self w)) Flipper_abi (address (self w)) (contract (self w))
             ''deal'' [AInt i]), w)"

subsection \<open>\<^verbatim>\<open>class Flapper\<close>\<close>

definition Flapper_era :: "('w, 'c, 'r) world \<Rightarrow> (error + 'r) \<times> ('w, 'c, 'r) world" where
  "Flapper_era w = contract_call ''era'' [] (era_ret (node w)) w"

definition Flapper_pie ::
  "'r codec \<Rightarrow> ('w, 'c, 'r) world \<Rightarrow> (error + Address) \<times> ('w, 'c, 'r) world" where
  "Flapper_pie cd w =
     (case contract_call ''pie'' [] (pie_ret (node w)) w of
        (r, w') \<Rightarrow> (bind_err r (\<lambda>v. ext (mk_Address cd v)), w'))"

definition Flapper_gem ::
  "'r codec \<Rightarrow> ('w, 'c, 'r) world \<Rightarrow> (error + Address) \<times> ('w, 'c, 'r) world" where
  "Flapper_gem cd w =
     (case contract_call ''gem'' [] (gem_ret (node w)) w of
        (r, w') \<Rightarrow> (bind_err r (\<lambda>v. ext (mk_Address cd v)), w'))"

definition Flapper_beg ::
  "'r codec \<Rightarrow> ('w, 'c, 'r) world \<Rightarrow> (error + Wad) \<times> ('w, 'c, 'r) world" where
  "Flapper_beg cd w =
     (case contract_call ''beg'' [] (beg_ret (node w)) w of
        (r, w') \<Rightarrow> (bind_err r (\<lambda>v. ext (mk_Wad cd v)), w'))"

definition Flapper_ttl ::
  "'r codec \<Rightarrow> ('w, 'c, 'r) world \<Rightarrow> (error + int) \<times> ('w, 'c, 'r) world" where
  "Flapper_ttl cd w =
     (case contract_call ''ttl'' [] (ttl_ret (node w)) w of
        (r, w') \<Rightarrow> (bind_err r (\<lambda>v. ext (mk_int cd v)), w'))"

definition Flapper_tau ::
  "'r codec \<Rightarrow> ('w, 'c, 'r) world \<Rightarrow> (error + int) \<times> ('w, 'c, 'r) world" where
  "Flapper_tau cd w =
     (case contract_call ''tau'' [] (tau_ret (node w)) w of
        (r, w') \<Rightarrow> (bind_err r (\<lambda>v. ext (mk_int cd v)), w'))"


text \<open>
  The constructor call of \<^verbatim>\<open>bids\<close>: Python evaluates the keyword arguments from left to
  right, each one an index into the array followed by a conversion.
\<close>

definition Flapper_Bid_of :: "'r codec \<Rightarrow> 'r list \<Rightarrow> error + Flapper_Bid" where
  "Flapper_Bid_of cd array =
     bind_err (py_index array 0) (\<lambda>a0. bind_err (ext (mk_Wad cd a0)) (\<lambda>b.
     bind_err (py_index array 1) (\<lambda>a1. bind_err (ext (mk_Wad cd a1)) (\<lambda>l.
     bind_err (py_index array 2) (\<lambda>a2. bind_err (ext (mk_Address cd a2)) (\<lambda>g.
     bind_err (py_index array 3) (\<lambda>a3. bind_err (ext (mk_int cd a3)) (\<lambda>t.
     bind_err (py_index array 4) (\<lambda>a4. bind_err (ext (mk_int cd a4)) (\<lambda>e.
       Inr \<lparr>flap_bid = b, flap_lot = l, flap_guy = g, flap_tic = t, flap_end = e\<rparr>))))))))))"

definition Flapper_bids ::
  "'r codec \<Rightarrow> ('w, 'c, 'r) world \<Rightarrow> int \<Rightarrow> (error + Flapper_Bid) \<times> ('w, 'c, 'r) world" where
  "Flapper_bids cd w i =
     (case contract_call ''bids'' [i] (bids_ret (node w) i) w of
        (r, w') \<Rightarrow> (bind_err r (Flapper_Bid_of cd), w'))"

definition Flapper_kick ::
  "('w, 'c, 'r) world \<Rightarrow> Address \<Rightarrow> Wad \<Rightarrow> Wad
     \<Rightarrow> (error + ('w, 'c) Transact) \<times> ('w, 'c, 'r) world" where
  "Flapper_kick w gal lot bid =
     (Inr (Transact (self w) (web3 (self w)) Flapper_abi (address (self w)) (contract (self w))
             ''kick'' [AStr (addr_address gal),
                       AInt (wad_value lot),
                       AInt (wad_value bid)]), w)"

definition Flapper_tend ::
  "('w, 'c, 'r) world \<Rightarrow> int \<Rightarrow> Wad \<Rightarrow> Wad
     \<Rightarrow> (error + ('w, 'c) Transact) \<times> ('w, 'c, 'r) world" where
  "Flapper_tend w i lot bid =
     (Inr (Transact (self w) (web3 (self w)) Flapper_abi (address (self w)) (contract (self w))
             ''tend'' [AInt i, AInt (wad_value lot), AInt (wad_value bid)]), w)"

definition Flapper_deal ::
  "('w, 'c, 'r) world \<Rightarrow> int \<Rightarrow> (error + ('w, 'c) Transact) \<times> ('w, 'c, 'r) world" where
  "Flapper_deal w i =
     (Inr (Transact (self w) (web3 (self w)) Flapper_abi (address (self w)) (contract (self w))
             ''deal'' [AInt i]), w)"

subsection \<open>\<^verbatim>\<open>class Flopper\<close>\<close>

definition Flopper_era :: "('w, 'c, 'r) world \<Rightarrow> (error + 'r) \<times> ('w, 'c, 'r) world" where
  "Flopper_era w = contract_call ''era'' [] (era_ret (node w)) w"

definition Flopper_pie ::
  "'r codec \<Rightarrow> ('w, 'c, 'r) world \<Rightarrow> (error + Address) \<times> ('w, 'c, 'r) world" where
  "Flopper_pie cd w =
     (case contract_call ''pie'' [] (pie_ret (node w)) w of
        (r, w') \<Rightarrow> (bind_err r (\<lambda>v. ext (mk_Address cd v)), w'))"

definition Flopper_gem ::
  "'r codec \<Rightarrow> ('w, 'c, 'r) world \<Rightarrow> (error + Address) \<times> ('w, 'c, 'r) world" where
  "Flopper_gem cd w =
     (case contract_call ''gem'' [] (gem_ret (node w)) w of
        (r, w') \<Rightarrow> (bind_err r (\<lambda>v. ext (mk_Address cd v)), w'))"

definition Flopper_beg ::
  "'r codec \<Rightarrow> ('w, 'c, 'r) world \<Rightarrow> (error + Wad) \<times> ('w, 'c, 'r) world" where
  "Flopper_beg cd w =
     (case contract_call ''beg'' [] (beg_ret (node w)) w of
        (r, w') \<Rightarrow> (bind_err r (\<lambda>v. ext (mk_Wad cd v)), w'))"

definition Flopper_ttl ::
  "'r codec \<Rightarrow> ('w, 'c, 'r) world \<Rightarrow> (error + int) \<times> ('w, 'c, 'r) world" where
  "Flopper_ttl cd w =
     (case contract_call ''ttl'' [] (ttl_ret (node w)) w of
        (r, w') \<Rightarrow> (bind_err r (\<lambda>v. ext (mk_int cd v)), w'))"

definition Flopper_tau ::
  "'r codec \<Rightarrow> ('w, 'c, 'r) world \<Rightarrow> (error + int) \<times> ('w, 'c, 'r) world" where
  "Flopper_tau cd w =
     (case contract_call ''tau'' [] (tau_ret (node w)) w of
        (r, w') \<Rightarrow> (bind_err r (\<lambda>v. ext (mk_int cd v)), w'))"

definition Flopper_kicks ::
  "'r codec \<Rightarrow> ('w, 'c, 'r) world \<Rightarrow> (error + int) \<times> ('w, 'c, 'r) world" where
  "Flopper_kicks cd w =
     (case contract_call ''kicks'' [] (kicks_ret (node w)) w of
        (r, w') \<Rightarrow> (bind_err r (\<lambda>v. ext (mk_int cd v)), w'))"

definition Flopper_Bid_of :: "'r codec \<Rightarrow> 'r list \<Rightarrow> error + Flopper_Bid" where
  "Flopper_Bid_of cd array =
     bind_err (py_index array 0) (\<lambda>a0. bind_err (ext (mk_Wad cd a0)) (\<lambda>b.
     bind_err (py_index array 1) (\<lambda>a1. bind_err (ext (mk_Wad cd a1)) (\<lambda>l.
     bind_err (py_index array 2) (\<lambda>a2. bind_err (ext (mk_Address cd a2)) (\<lambda>g.
     bind_err (py_index array 3) (\<lambda>a3. bind_err (ext (mk_int cd a3)) (\<lambda>t.
     bind_err (py_index array 4) (\<lambda>a4. bind_err (ext (mk_int cd a4)) (\<lambda>e.
       Inr \<lparr>flop_bid = b, flop_lot = l, flop_guy = g, flop_tic = t, flop_end = e\<rparr>))))))))))"

definition Flopper_bids ::
  "'r codec \<Rightarrow> ('w, 'c, 'r) world \<Rightarrow> int \<Rightarrow> (error + Flopper_Bid) \<times> ('w, 'c, 'r) world" where
  "Flopper_bids cd w i =
     (case contract_call ''bids'' [i] (bids_ret (node w) i) w of
        (r, w') \<Rightarrow> (bind_err r (Flopper_Bid_of cd), w'))"

definition Flopper_kick ::
  "('w, 'c, 'r) world \<Rightarrow> Address \<Rightarrow> Wad \<Rightarrow> Wad
     \<Rightarrow> (error + ('w, 'c) Transact) \<times> ('w, 'c, 'r) world" where
  "Flopper_kick w gal lot bid =
     (Inr (Transact (self w) (web3 (self w)) Flopper_abi (address (self w)) (contract (self w))
             ''kick'' [AStr (addr_address gal),
                       AInt (wad_value lot),
                       AInt (wad_value bid)]), w)"

definition Flopper_dent ::
  "('w, 'c, 'r) world \<Rightarrow> int \<Rightarrow> Wad \<Rightarrow> Wad
     \<Rightarrow> (error + ('w, 'c) Transact) \<times> ('w, 'c, 'r) world" where
  "Flopper_dent w i lot bid =
     (Inr (Transact (self w) (web3 (self w)) Flopper_abi (address (self w)) (contract (self w))
             ''dent'' [AInt i, AInt (wad_value lot), AInt (wad_value bid)]), w)"

definition Flopper_deal ::
  "('w, 'c, 'r) world \<Rightarrow> int \<Rightarrow> (error + ('w, 'c) Transact) \<times> ('w, 'c, 'r) world" where
  "Flopper_deal w i =
     (Inr (Transact (self w) (web3 (self w)) Flopper_abi (address (self w)) (contract (self w))
             ''deal'' [AInt i]), w)"

subsection \<open>The methods each class declares\<close>

text \<open>
  The names bound in the body of each class, in the order of the source. A call of a name
  that the class does not declare raises \<open>AttributeError\<close>. (The base class \<^verbatim>\<open>Contract\<close>
  is not part of the embedded file; the source uses it for the private helpers
  \<^verbatim>\<open>_load_abi\<close>, \<^verbatim>\<open>_load_bin\<close>, \<^verbatim>\<open>_deploy\<close> and \<^verbatim>\<open>_get_contract\<close> only.)
\<close>

datatype auction_class = Flipper | Flapper | Flopper

fun class_methods :: "auction_class \<Rightarrow> string list" where
  "class_methods Flipper =
     [''deploy'', ''__init__'', ''era'', ''pie'', ''gem'', ''beg'', ''ttl'', ''tau'',
      ''kick'', ''tend'', ''dent'', ''deal'', ''__repr__'']"
| "class_methods Flapper =
     [''deploy'', ''__init__'', ''approve'', ''era'', ''pie'', ''gem'', ''beg'', ''ttl'', ''tau'',
      ''kicks'', ''bids'', ''kick'', ''tend'', ''deal'', ''__repr__'']"
| "class_methods Flopper =
     [''deploy'', ''__init__'', ''approve'', ''era'', ''pie'', ''gem'', ''beg'', ''ttl'', ''tau'',
      ''kicks'', ''bids'', ''kick'', ''dent'', ''deal'', ''__repr__'']"

definition getattr_method :: "auction_class \<Rightarrow> string \<Rightarrow> error + string" where
  "getattr_method cls name =
     (if name \<in> set (class_methods cls) then Inr name else Inl AttributeError)"

subsection \<open>The validator as the specification words it\<close>

text \<open>
  The specification describes a record, mechanism parameters and a validator in front of
  every request. The source has no counterpart of the validator; the definitions of this
  subsection follow the words of the specification (sections 3 and 4.2) and serve only to
  say what the specification expects at a given input. They are prefixed \<open>spec_\<close>.
\<close>

record spec_AuctionRecord =
  bidAmount :: int
  lotAmount :: int
  highBidder :: string
  bidDeadline :: int
  hardDeadline :: int

record spec_MechanismParameters =
  minIncreaseFraction :: rat
  bidExpirySeconds :: int
  auctionMaxDurationSeconds :: int

definition spec_active :: "spec_AuctionRecord \<Rightarrow> int \<Rightarrow> bool" where
  "spec_active r now \<longleftrightarrow> now < hardDeadline r \<and> (bidDeadline r = 0 \<or> now < bidDeadline r)"

text \<open>
  \<open>tab\<close> is \<open>Some\<close> target amount for the collateral variant and \<open>None\<close> otherwise;
  the result is \<open>None\<close> when the validator accepts.
\<close>

definition spec_validateRaiseBid ::
  "spec_AuctionRecord \<Rightarrow> spec_MechanismParameters \<Rightarrow> int option \<Rightarrow> int \<Rightarrow> int \<Rightarrow> int
     \<Rightarrow> error option" where
  "spec_validateRaiseBid r p tab proposedBidAmount proposedLotAmount now =
     (if \<not> spec_active r now then Some AuctionNotActive
      else if \<not> (of_int proposedBidAmount \<ge> of_int (bidAmount r) * (1 + minIncreaseFraction p)
                 \<and> (case tab of None \<Rightarrow> True | Some t \<Rightarrow> proposedBidAmount \<le> t))
        then Some BidTooLow
      else if proposedLotAmount \<noteq> lotAmount r then Some LotMismatch
      else None)"

definition spec_validateKick :: "int option \<Rightarrow> int \<Rightarrow> int \<Rightarrow> error option" where
  "spec_validateKick tab initialLot initialBid =
     (if initialLot \<le> 0 \<or> initialBid \<le> 0 \<or> (case tab of None \<Rightarrow> False | Some t \<Rightarrow> t \<le> 0)
      then Some InvalidParameters else None)"

definition record_of_Flapper_Bid :: "Flapper_Bid \<Rightarrow> spec_AuctionRecord" where
  "record_of_Flapper_Bid b =
     \<lparr>bidAmount = wad_value (flap_bid b), lotAmount = wad_value (flap_lot b),
      highBidder = addr_address (flap_guy b), bidDeadline = flap_tic b,
      hardDeadline = flap_end b\<rparr>"

subsection \<open>Concrete worlds\<close>

text \<open>
  An instance of the raw values and of the conversions, on which the definitions are
  evaluated: a raw value is a Python integer or string, and each conversion accepts the
  values of its own kind.
\<close>

datatype pyval = PInt int | PStr string

definition py_codec :: "pyval codec" where
  "py_codec =
     \<lparr>mk_Wad = (\<lambda>v. case v of PInt n \<Rightarrow> Some (Wad n) | PStr s \<Rightarrow> None),
      mk_Address = (\<lambda>v. case v of PInt n \<Rightarrow> None | PStr s \<Rightarrow> Some (Address s)),
      mk_int = (\<lambda>v. case v of PInt n \<Rightarrow> Some n | PStr s \<Rightarrow> None)\<rparr>"

definition zero_address :: string where
  "zero_address = ''0x0000000000000000000000000000000000000000''"

definition bidder_address :: string where
  "bidder_address = ''0x1111100000999998888877777666665555544444''"

text \<open>
  A world whose contract reports the time \<open>now\<close>, \<open>beg = 0.05\<close> (scaled by \<open>10^18\<close>),
  \<open>ttl = 300\<close>, \<open>tau = 3600\<close>, \<open>n\<close> auctions, and the rows of \<open>table\<close>; an id without a row
  reads as five zero fields, as a contract mapping does. No call has been made.
\<close>

definition example_client :: "(nat, nat) client" where
  "example_client = \<lparr>web3 = 7, address = Address ''0x8888877777666665555544444111110000099999'',
                      contract = 9\<rparr>"

definition example_world ::
  "int \<Rightarrow> int \<Rightarrow> (int \<times> pyval list) list \<Rightarrow> (nat, nat, pyval) world" where
  "example_world now n table =
     \<lparr>self = example_client,
      node = \<lparr>era_ret = Some (PInt now),
              pie_ret = Some (PStr zero_address),
              gem_ret = Some (PStr zero_address),
              beg_ret = Some (PInt 50000000000000000),
              ttl_ret = Some (PInt 300),
              tau_ret = Some (PInt 3600),
              kicks_ret = Some (PInt n),
              bids_ret = (\<lambda>i. case map_of table i of
                                 Some row \<Rightarrow> Some row
                               | None \<Rightarrow> Some [PInt 0, PInt 0, PStr zero_address, PInt 0, PInt 0])\<rparr>,
      calls = []\<rparr>"

text \<open>Auction 1 with bid 100, lot 50, no bid placed yet, hard deadline 4600.\<close>

definition open_row :: "pyval list" where
  "open_row = [PInt 100, PInt 50, PStr zero_address, PInt 0, PInt 4600]"

text \<open>Auction 1 with bid 105, lot 50, a bidder, bid deadline 1400, hard deadline 4600.\<close>

definition bidded_row :: "pyval list" where
  "bidded_row = [PInt 105, PInt 50, PStr bidder_address, PInt 1400, PInt 4600]"

definition example_parameters :: spec_MechanismParameters where
  "example_parameters =
     \<lparr>minIncreaseFraction = 5 / 100, bidExpirySeconds = 300, auctionMaxDurationSeconds = 3600\<rparr>"

subsection \<open>Projections used in the statements\<close>

text \<open>The function name and the argument list of a request; the five fields of a record.\<close>

definition request_call :: "('w, 'c) Transact \<Rightarrow> string \<times> arg list" where
  "request_call tx = (function_name tx, parameters tx)"

definition flap_fields :: "Flapper_Bid \<Rightarrow> Wad \<times> Wad \<times> Address \<times> int \<times> int" where
  "flap_fields b = (flap_bid b, flap_lot b, flap_guy b, flap_tic b, flap_end b)"

definition flop_fields :: "Flopper_Bid \<Rightarrow> Wad \<times> Wad \<times> Address \<times> int \<times> int" where
  "flop_fields b = (flop_bid b, flop_lot b, flop_guy b, flop_tic b, flop_end b)"

section \<open>Properties\<close>

subsection \<open>Auxiliary facts\<close>

lemma bind_err_simps:
  "bind_err (Inl e) f = Inl e"
  "bind_err (Inr v) f = f v"
  by (simp_all add: bind_err_def)

lemma ext_simps:
  "ext None = Inl ExternalError"
  "ext (Some v) = Inr v"
  by (simp_all add: ext_def)


lemma bind_err_eq_Inr:
  "bind_err r f = Inr y \<longleftrightarrow> (\<exists>v. r = Inr v \<and> f v = Inr y)"
  by (cases r) (simp_all add: bind_err_def)


lemma ext_eq_Inr: "ext r = Inr v \<longleftrightarrow> r = Some v"
  by (cases r) (auto simp: ext_def)




lemma fst_Flapper_bids:
  "fst (Flapper_bids cd w i) = bind_err (ext (bids_ret (node w) i)) (Flapper_Bid_of cd)"
  by (simp add: Flapper_bids_def contract_call_def)

lemma fst_Flopper_bids:
  "fst (Flopper_bids cd w i) = bind_err (ext (bids_ret (node w) i)) (Flopper_Bid_of cd)"
  by (simp add: Flopper_bids_def contract_call_def)

lemma Flapper_Bid_of_five:
  "Flapper_Bid_of cd (a0 # a1 # a2 # a3 # a4 # rest) = Inr b \<longleftrightarrow>
     mk_Wad cd a0 = Some (flap_bid b) \<and> mk_Wad cd a1 = Some (flap_lot b) \<and>
     mk_Address cd a2 = Some (flap_guy b) \<and> mk_int cd a3 = Some (flap_tic b) \<and>
     mk_int cd a4 = Some (flap_end b)"
  by (cases b) (auto simp: Flapper_Bid_of_def py_index_def bind_err_simps bind_err_eq_Inr ext_eq_Inr)

lemma Flopper_Bid_of_five:
  "Flopper_Bid_of cd (a0 # a1 # a2 # a3 # a4 # rest) = Inr b \<longleftrightarrow>
     mk_Wad cd a0 = Some (flop_bid b) \<and> mk_Wad cd a1 = Some (flop_lot b) \<and>
     mk_Address cd a2 = Some (flop_guy b) \<and> mk_int cd a3 = Some (flop_tic b) \<and>
     mk_int cd a4 = Some (flop_end b)"
  by (cases b) (auto simp: Flopper_Bid_of_def py_index_def bind_err_simps bind_err_eq_Inr ext_eq_Inr)

lemma map_sum_bind_err:
  "map_sum id g (bind_err r f) = bind_err r (\<lambda>v. map_sum id g (f v))"
  by (cases r) (simp_all add: bind_err_def)

lemma Bid_of_agree:
  "map_sum id flap_fields (Flapper_Bid_of cd array) = map_sum id flop_fields (Flopper_Bid_of cd array)"
  by (simp add: Flapper_Bid_of_def Flopper_Bid_of_def map_sum_bind_err flap_fields_def flop_fields_def)


lemmas mutator_defs =
  Flipper_kick_def Flipper_tend_def Flipper_dent_def Flipper_deal_def
  Flapper_kick_def Flapper_tend_def Flapper_deal_def
  Flopper_kick_def Flopper_dent_def Flopper_deal_def

lemmas example_defs =
  example_world_def example_client_def open_row_def bidded_row_def example_parameters_def
  py_codec_def

subsection \<open>Requests are built without reading or validating\<close>

text \<open>
  C1 states that every request builder first reads the auction record from the ledger and
  validates the transition, and fails with a validator error outside the legal state.
  The code does neither. In the world below auction 1 has a bid deadline of 1400 and a hard
  deadline of 4600 and the time is 5000: the record that \<^verbatim>\<open>Flapper.bids\<close> decodes is not
  active, the validator of the specification answers \<open>AuctionNotActive\<close>, and
  \<^verbatim>\<open>Flapper.tend\<close> returns the request, with no contract call in the log.
\<close>

theorem mutations_validate_counterexample:
  "fst (Flapper_bids py_codec (example_world 5000 1 [(1, bidded_row)]) 1) =
     Inr \<lparr>flap_bid = Wad 105, flap_lot = Wad 50, flap_guy = Address bidder_address,
          flap_tic = 1400, flap_end = 4600\<rparr>
   \<and> spec_validateRaiseBid
        (record_of_Flapper_Bid
           \<lparr>flap_bid = Wad 105, flap_lot = Wad 50, flap_guy = Address bidder_address,
            flap_tic = 1400, flap_end = 4600\<rparr>)
        example_parameters None 200 50 5000 = Some AuctionNotActive
   \<and> fst (Flapper_tend (example_world 5000 1 [(1, bidded_row)]) 1 (Wad 50) (Wad 200)) =
       Inr (Transact example_client 7 Flapper_abi
              (Address ''0x8888877777666665555544444111110000099999'') 9
              ''tend'' [AInt 1, AInt 50, AInt 200])
   \<and> calls (snd (Flapper_tend (example_world 5000 1 [(1, bidded_row)]) 1 (Wad 50) (Wad 200))) = []"
  by (simp add: fst_Flapper_bids Flapper_Bid_of_def py_index_def bind_err_simps ext_simps
      example_defs Flapper_tend_def spec_validateRaiseBid_def spec_active_def
      record_of_Flapper_Bid_def)

text \<open>
  C1, as the code has it: each of the ten request builders (kick, tend, dent and deal of
  \<^verbatim>\<open>Flipper\<close>; kick, tend and deal of \<^verbatim>\<open>Flapper\<close>; kick, dent and deal of
  \<^verbatim>\<open>Flopper\<close>) returns, for every world and every argument, the request built directly from
  its arguments and the fields of the client: the function name of the operation and the
  argument list in the order of the source. The result is never an error, whatever the ledger
  holds, and no contract call is issued: the log of calls after it is the log before it.
\<close>

theorem mutations_build_request_unvalidated:
  "(fst (Flipper_kick w lad gal tab lot bid) =
        Inr (Transact (self w) (web3 (self w)) Flipper_abi (address (self w)) (contract (self w))
              ''kick'' [AStr (addr_address lad), AStr (addr_address gal), AInt tab,
                        AInt (wad_value lot), AInt (wad_value bid)])
      \<and> \<not> isl (fst (Flipper_kick w lad gal tab lot bid))
      \<and> calls (snd (Flipper_kick w lad gal tab lot bid)) = calls w)
   \<and> (fst (Flipper_tend w i lot bid) =
        Inr (Transact (self w) (web3 (self w)) Flipper_abi (address (self w)) (contract (self w))
              ''tend'' [AInt i, AInt (wad_value lot), AInt (wad_value bid)])
      \<and> \<not> isl (fst (Flipper_tend w i lot bid))
      \<and> calls (snd (Flipper_tend w i lot bid)) = calls w)
   \<and> (fst (Flipper_dent w i lot bid) =
        Inr (Transact (self w) (web3 (self w)) Flipper_abi (address (self w)) (contract (self w))
              ''dent'' [AInt i, AInt (wad_value lot), AInt (wad_value bid)])
      \<and> \<not> isl (fst (Flipper_dent w i lot bid))
      \<and> calls (snd (Flipper_dent w i lot bid)) = calls w)
   \<and> (fst (Flipper_deal w i) =
        Inr (Transact (self w) (web3 (self w)) Flipper_abi (address (self w)) (contract (self w))
              ''deal'' [AInt i])
      \<and> \<not> isl (fst (Flipper_deal w i))
      \<and> calls (snd (Flipper_deal w i)) = calls w)
   \<and> (fst (Flapper_kick w gal lot bid) =
        Inr (Transact (self w) (web3 (self w)) Flapper_abi (address (self w)) (contract (self w))
              ''kick'' [AStr (addr_address gal), AInt (wad_value lot), AInt (wad_value bid)])
      \<and> \<not> isl (fst (Flapper_kick w gal lot bid))
      \<and> calls (snd (Flapper_kick w gal lot bid)) = calls w)
   \<and> (fst (Flapper_tend w i lot bid) =
        Inr (Transact (self w) (web3 (self w)) Flapper_abi (address (self w)) (contract (self w))
              ''tend'' [AInt i, AInt (wad_value lot), AInt (wad_value bid)])
      \<and> \<not> isl (fst (Flapper_tend w i lot bid))
      \<and> calls (snd (Flapper_tend w i lot bid)) = calls w)
   \<and> (fst (Flapper_deal w i) =
        Inr (Transact (self w) (web3 (self w)) Flapper_abi (address (self w)) (contract (self w))
              ''deal'' [AInt i])
      \<and> \<not> isl (fst (Flapper_deal w i))
      \<and> calls (snd (Flapper_deal w i)) = calls w)
   \<and> (fst (Flopper_kick w gal lot bid) =
        Inr (Transact (self w) (web3 (self w)) Flopper_abi (address (self w)) (contract (self w))
              ''kick'' [AStr (addr_address gal), AInt (wad_value lot), AInt (wad_value bid)])
      \<and> \<not> isl (fst (Flopper_kick w gal lot bid))
      \<and> calls (snd (Flopper_kick w gal lot bid)) = calls w)
   \<and> (fst (Flopper_dent w i lot bid) =
        Inr (Transact (self w) (web3 (self w)) Flopper_abi (address (self w)) (contract (self w))
              ''dent'' [AInt i, AInt (wad_value lot), AInt (wad_value bid)])
      \<and> \<not> isl (fst (Flopper_dent w i lot bid))
      \<and> calls (snd (Flopper_dent w i lot bid)) = calls w)
   \<and> (fst (Flopper_deal w i) =
        Inr (Transact (self w) (web3 (self w)) Flopper_abi (address (self w)) (contract (self w))
              ''deal'' [AInt i])
      \<and> \<not> isl (fst (Flopper_deal w i))
      \<and> calls (snd (Flopper_deal w i)) = calls w)"
  by (simp add: mutator_defs)

text \<open>
  C2 states that raising a bid fails with \<open>AuctionNotActive\<close>, \<open>BidTooLow\<close> or
  \<open>LotMismatch\<close> as the validator decides. At time 1100 the ledger holds auction 1 with
  bid 100 and lot 50 and the minimum increase is 0.05: for a bid of 104 the validator of the
  specification answers \<open>BidTooLow\<close> (104 is below 105), and \<^verbatim>\<open>Flipper.tend\<close> returns the
  request.
\<close>

theorem Flipper_tend_validates_counterexample:
  "bids_ret (node (example_world 1100 1 [(1, open_row)])) 1 =
     Some [PInt 100, PInt 50, PStr zero_address, PInt 0, PInt 4600]
   \<and> spec_validateRaiseBid
        \<lparr>bidAmount = 100, lotAmount = 50, highBidder = zero_address, bidDeadline = 0,
         hardDeadline = 4600\<rparr>
        example_parameters (Some 1000) 104 50 1100 = Some BidTooLow
   \<and> fst (Flipper_tend (example_world 1100 1 [(1, open_row)]) 1 (Wad 50) (Wad 104)) =
       Inr (Transact example_client 7 Flipper_abi
              (Address ''0x8888877777666665555544444111110000099999'') 9
              ''tend'' [AInt 1, AInt 50, AInt 104])"
  by (simp add: example_defs Flipper_tend_def spec_validateRaiseBid_def spec_active_def)

text \<open>
  C2, as the code has it: \<^verbatim>\<open>Flipper.tend\<close> checks nothing. For every world, id, lot and
  bid it returns the \<open>tend\<close> request built from its arguments; the result does not depend
  on what the ledger holds (record, parameters, time), and it is none of
  \<open>AuctionNotActive\<close>, \<open>BidTooLow\<close>, \<open>LotMismatch\<close>.
\<close>

theorem Flipper_tend_unvalidated:
  "fst (Flipper_tend w i lot bid) =
     Inr (Transact (self w) (web3 (self w)) Flipper_abi (address (self w)) (contract (self w))
            ''tend'' [AInt i, AInt (wad_value lot), AInt (wad_value bid)])
   \<and> fst (Flipper_tend (w\<lparr>node := l, calls := cs\<rparr>) i lot bid) = fst (Flipper_tend w i lot bid)
   \<and> fst (Flipper_tend w i lot bid) \<noteq> Inl AuctionNotActive
   \<and> fst (Flipper_tend w i lot bid) \<noteq> Inl BidTooLow
   \<and> fst (Flipper_tend w i lot bid) \<noteq> Inl LotMismatch"
  by (simp add: Flipper_tend_def)

subsection \<open>The read surface of the three classes\<close>

text \<open>
  C3 states that all three classes offer the record query and the auction count. The class
  \<^verbatim>\<open>Flipper\<close> declares neither \<^verbatim>\<open>bids\<close> nor \<^verbatim>\<open>kicks\<close>: calling them raises
  \<open>AttributeError\<close>, while \<^verbatim>\<open>Flapper\<close> and \<^verbatim>\<open>Flopper\<close> declare both.
\<close>

theorem Flipper_lacks_record_queries:
  "getattr_method Flipper ''bids'' = Inl AttributeError
   \<and> getattr_method Flipper ''kicks'' = Inl AttributeError
   \<and> getattr_method Flapper ''bids'' = Inr ''bids''
   \<and> getattr_method Flapper ''kicks'' = Inr ''kicks''
   \<and> getattr_method Flopper ''bids'' = Inr ''bids''
   \<and> getattr_method Flopper ''kicks'' = Inr ''kicks''"
  by (simp add: getattr_method_def)

subsection \<open>The shape of the requests\<close>

text \<open>
  C4: every request of a bid or settle operation carries the function name and the
  argument list of the call interface: \<open>tend\<close> with \<open>[id, lot, bid]\<close>, \<open>dent\<close> with
  \<open>[id, lot, bid]\<close>, and \<open>deal\<close> with \<open>[id]\<close>, in that order, in every class that has
  the operation.
\<close>

theorem bid_and_settle_requests_shape:
  "map_sum id request_call (fst (Flipper_tend w i lot bid)) =
     Inr (''tend'', [AInt i, AInt (wad_value lot), AInt (wad_value bid)])
   \<and> map_sum id request_call (fst (Flapper_tend w i lot bid)) =
     Inr (''tend'', [AInt i, AInt (wad_value lot), AInt (wad_value bid)])
   \<and> map_sum id request_call (fst (Flipper_dent w i lot bid)) =
     Inr (''dent'', [AInt i, AInt (wad_value lot), AInt (wad_value bid)])
   \<and> map_sum id request_call (fst (Flopper_dent w i lot bid)) =
     Inr (''dent'', [AInt i, AInt (wad_value lot), AInt (wad_value bid)])
   \<and> map_sum id request_call (fst (Flipper_deal w i)) = Inr (''deal'', [AInt i])
   \<and> map_sum id request_call (fst (Flapper_deal w i)) = Inr (''deal'', [AInt i])
   \<and> map_sum id request_call (fst (Flopper_deal w i)) = Inr (''deal'', [AInt i])"
  by (simp add: mutator_defs request_call_def)

text \<open>
  C5 states that the debt-auction kick carries the bid before the lot. With lot 1 and bid 2
  the argument list of \<^verbatim>\<open>Flopper.kick\<close> is not \<open>[gal, 2, 1]\<close>.
\<close>

theorem Flopper_kick_bid_first_counterexample:
  "map_sum id parameters
     (fst (Flopper_kick (example_world 1000 0 []) (Address bidder_address) (Wad 1) (Wad 2)))
   \<noteq> Inr [AStr bidder_address, AInt 2, AInt 1]"
  by (simp add: Flopper_kick_def)

text \<open>
  C5, as the code has it: the request of \<^verbatim>\<open>Flopper.kick(gal, lot, bid)\<close> is \<open>kick\<close> with
  the arguments in the order beneficiary, lot, bid: the lot precedes the bid.
\<close>

theorem Flopper_kick_lot_first:
  "map_sum id request_call (fst (Flopper_kick w gal lot bid)) =
     Inr (''kick'', [AStr (addr_address gal), AInt (wad_value lot), AInt (wad_value bid)])"
  by (simp add: Flopper_kick_def request_call_def)

subsection \<open>The record query\<close>



text \<open>
  C7: when the contract call answers with an array, decoding is positional and reads
  exactly the first five entries: the query returns the record \<open>b\<close> exactly when position 0
  converts to its bid, position 1 to its lot, position 2 to its high bidder (guy), position 3
  to its bid deadline (tic) and position 4 to its hard deadline (end). Entries beyond the
  fifth are not read. The same holds for both classes that have the query.
\<close>

theorem bids_decode_positional:
  assumes "bids_ret (node w) i = Some (a0 # a1 # a2 # a3 # a4 # rest)"
  shows "(fst (Flapper_bids cd w i) = Inr b \<longleftrightarrow>
            mk_Wad cd a0 = Some (flap_bid b) \<and> mk_Wad cd a1 = Some (flap_lot b) \<and>
            mk_Address cd a2 = Some (flap_guy b) \<and> mk_int cd a3 = Some (flap_tic b) \<and>
            mk_int cd a4 = Some (flap_end b))
       \<and> (fst (Flopper_bids cd w i) = Inr b' \<longleftrightarrow>
            mk_Wad cd a0 = Some (flop_bid b') \<and> mk_Wad cd a1 = Some (flop_lot b') \<and>
            mk_Address cd a2 = Some (flop_guy b') \<and> mk_int cd a3 = Some (flop_tic b') \<and>
            mk_int cd a4 = Some (flop_end b'))"
  using assms
  by (simp add: fst_Flapper_bids fst_Flopper_bids ext_simps bind_err_simps
      Flapper_Bid_of_five Flopper_Bid_of_five)

theorem bids_decode_positional_witness:
  "bids_ret (node (example_world 1100 1 [(1, bidded_row)])) 1 =
     Some (PInt 105 # PInt 50 # PStr bidder_address # PInt 1400 # PInt 4600 # [])
   \<and> fst (Flapper_bids py_codec (example_world 1100 1 [(1, bidded_row)]) 1) =
       Inr \<lparr>flap_bid = Wad 105, flap_lot = Wad 50, flap_guy = Address bidder_address,
            flap_tic = 1400, flap_end = 4600\<rparr>
   \<and> fst (Flopper_bids py_codec (example_world 1100 1 [(1, bidded_row)]) 1) =
       Inr \<lparr>flop_bid = Wad 105, flop_lot = Wad 50, flop_guy = Address bidder_address,
            flop_tic = 1400, flop_end = 4600\<rparr>"
proof -
  have h: "bids_ret (node (example_world 1100 1 [(1, bidded_row)])) 1 =
     Some (PInt 105 # PInt 50 # PStr bidder_address # PInt 1400 # PInt 4600 # [])"
    by (simp add: example_defs)
  show ?thesis
    using h bids_decode_positional [OF h, of py_codec
        "\<lparr>flap_bid = Wad 105, flap_lot = Wad 50, flap_guy = Address bidder_address,
            flap_tic = 1400, flap_end = 4600\<rparr>"
        "\<lparr>flop_bid = Wad 105, flop_lot = Wad 50, flop_guy = Address bidder_address,
            flop_tic = 1400, flop_end = 4600\<rparr>"]
    by (simp add: py_codec_def)
qed

subsection \<open>Kick\<close>

text \<open>
  C8 states that a kick with a non-positive quantity fails with \<open>InvalidParameters\<close>.
  With \<open>tab = 0\<close>, \<open>lot = 0\<close> and \<open>bid = -5\<close> the validator of the specification
  answers \<open>InvalidParameters\<close>, and \<^verbatim>\<open>Flipper.kick\<close> returns the request.
\<close>

theorem kick_validates_counterexample:
  "spec_validateKick (Some 0) 0 (- 5) = Some InvalidParameters
   \<and> fst (Flipper_kick (example_world 1000 0 []) (Address bidder_address) (Address zero_address)
            0 (Wad 0) (Wad (- 5))) =
       Inr (Transact example_client 7 Flipper_abi
              (Address ''0x8888877777666665555544444111110000099999'') 9
              ''kick'' [AStr bidder_address, AStr zero_address, AInt 0, AInt 0, AInt (- 5)])"
  by (simp add: example_defs Flipper_kick_def spec_validateKick_def)

text \<open>
  C8, as the code has it: the kick of each class checks no quantity. For every lot, bid and
  target amount, positive or not, it returns the \<open>kick\<close> request carrying the values as
  given, and never fails with \<open>InvalidParameters\<close>.
\<close>

theorem kick_unvalidated:
  "fst (Flipper_kick w lad gal tab lot bid) =
     Inr (Transact (self w) (web3 (self w)) Flipper_abi (address (self w)) (contract (self w))
            ''kick'' [AStr (addr_address lad), AStr (addr_address gal), AInt tab,
                      AInt (wad_value lot), AInt (wad_value bid)])
   \<and> fst (Flapper_kick w gal lot bid) =
     Inr (Transact (self w) (web3 (self w)) Flapper_abi (address (self w)) (contract (self w))
            ''kick'' [AStr (addr_address gal), AInt (wad_value lot), AInt (wad_value bid)])
   \<and> fst (Flopper_kick w gal lot bid) =
     Inr (Transact (self w) (web3 (self w)) Flopper_abi (address (self w)) (contract (self w))
            ''kick'' [AStr (addr_address gal), AInt (wad_value lot), AInt (wad_value bid)])
   \<and> fst (Flipper_kick w lad gal tab lot bid) \<noteq> Inl InvalidParameters
   \<and> fst (Flapper_kick w gal lot bid) \<noteq> Inl InvalidParameters
   \<and> fst (Flopper_kick w gal lot bid) \<noteq> Inl InvalidParameters"
  by (simp add: Flipper_kick_def Flapper_kick_def Flopper_kick_def)

subsection \<open>Frame\<close>

text \<open>
  C9: every request builder of every class returns the world it was given: the fields
  \<^verbatim>\<open>web3\<close>, \<^verbatim>\<open>address\<close> and \<^verbatim>\<open>_contract\<close> of the client object are unchanged and the
  log of contract calls has no new entry.
\<close>

theorem mutations_leave_world_unchanged:
  "snd (Flipper_kick w lad gal tab lot bid) = w
   \<and> snd (Flipper_tend w i lot bid) = w
   \<and> snd (Flipper_dent w i lot bid) = w
   \<and> snd (Flipper_deal w i) = w
   \<and> snd (Flapper_kick w gal lot bid) = w
   \<and> snd (Flapper_tend w i lot bid) = w
   \<and> snd (Flapper_deal w i) = w
   \<and> snd (Flopper_kick w gal lot bid) = w
   \<and> snd (Flopper_dent w i lot bid) = w
   \<and> snd (Flopper_deal w i) = w"
  by (simp add: mutator_defs)

subsection \<open>The two decoders agree\<close>

text \<open>
  C10: given the same raw array, \<^verbatim>\<open>Flapper.bids\<close> and \<^verbatim>\<open>Flopper.bids\<close> produce records
  with equal bid, lot, guy, tic and end fields (and fail alike where they fail). This holds
  for an array of any length, in particular for one of five elements.
\<close>

theorem bids_decoders_agree:
  assumes "bids_ret (node w1) i = Some array" and "bids_ret (node w2) j = Some array"
  shows "map_sum id flap_fields (fst (Flapper_bids cd w1 i)) =
         map_sum id flop_fields (fst (Flopper_bids cd w2 j))"
  using assms
  by (simp add: fst_Flapper_bids fst_Flopper_bids ext_simps bind_err_simps Bid_of_agree)

theorem bids_decoders_agree_witness:
  "bids_ret (node (example_world 1100 1 [(1, bidded_row)])) 1 = Some bidded_row
   \<and> map_sum id flap_fields (fst (Flapper_bids py_codec (example_world 1100 1 [(1, bidded_row)]) 1)) =
       Inr (Wad 105, Wad 50, Address bidder_address, 1400, 4600)
   \<and> map_sum id flop_fields (fst (Flopper_bids py_codec (example_world 1100 1 [(1, bidded_row)]) 1)) =
       Inr (Wad 105, Wad 50, Address bidder_address, 1400, 4600)"
proof -
  have h: "bids_ret (node (example_world 1100 1 [(1, bidded_row)])) 1 = Some bidded_row"
    by (simp add: example_defs)
  have f: "map_sum id flap_fields (fst (Flapper_bids py_codec (example_world 1100 1 [(1, bidded_row)]) 1)) =
       Inr (Wad 105, Wad 50, Address bidder_address, 1400, 4600)"
    by (simp add: fst_Flapper_bids Flapper_Bid_of_def py_index_def bind_err_simps ext_simps
        example_defs flap_fields_def)
  show ?thesis
    using h f bids_decoders_agree [OF h h, of py_codec] by simp
qed

end
